theory Spec2Isabelle
  imports Complex_Main "HOL-Library.Sublist"
begin

section \<open>The data store\<close>

text \<open>
  The relations of the first migration, restricted to the columns the agent API and
  \<open>users_share_pool\<close> read or write. A UUID is a string, a timestamp a natural number.
  The nullable columns (\<open>cpu_cores\<close>, \<open>ram_gb\<close>, \<open>storage_gb\<close>, \<open>last_seen\<close> and the
  three totals) are options, \<open>None\<close> being SQL NULL. An INTEGER column holds an \<open>int\<close>,
  and the store lets only 32-bit values in (\<open>integer_column\<close> below); a NUMERIC column
  holds an exact rational. The contributor status is the two-valued type of
  \<open>HeartbeatPayload.status\<close>.

  A JavaScript number is finite and is written as the rational that \<open>JSON.stringify\<close>
  prints for it, so a number sent to a NUMERIC column is stored as it is. (A request
  whose number literal is beyond the doubles, which \<open>JSON.parse\<close> reads as Infinity and
  \<open>JSON.stringify\<close> sends as null, is outside the model.) The arithmetic
  of those numbers is not that of the rationals: addition and the reading of a column
  value into a number are parameters of the model (\<open>js_add\<close> and \<open>js_number\<close> of the
  environment), of which nothing is assumed.
\<close>

type_synonym uuid = string
type_synonym timestamp = nat

datatype status = Online | Offline

record pool =
  p_id :: uuid
  p_owner_id :: uuid
  p_name :: string
  p_invite_code :: string
  total_cpu_cores :: "int option"
  total_ram_gb :: "rat option"
  total_storage_gb :: "rat option"
  p_updated_at :: timestamp

record contributor =
  c_id :: uuid
  c_pool_id :: uuid
  c_user_id :: uuid
  cpu_cores :: "int option"
  ram_gb :: "rat option"
  storage_gb :: "rat option"
  c_status :: status
  last_seen :: "timestamp option"

record server =
  s_id :: uuid
  s_owner_id :: uuid

record assignment =
  spa_server_id :: uuid
  spa_pool_id :: uuid

text \<open>
  The store holds the four tables. \<open>aggregator_calls\<close> is a ghost field: it records,
  in order, the pool ids \<open>updatePoolTotals\<close> was called with.
\<close>

record store =
  pools :: "pool list"
  pool_contributors :: "contributor list"
  servers :: "server list"
  server_pool_assignments :: "assignment list"
  aggregator_calls :: "uuid list"

text \<open>
  The constraints of the schema: the primary keys of \<open>pools\<close> and \<open>pool_contributors\<close>
  and \<open>UNIQUE(pool_id, user_id)\<close> on \<open>pool_contributors\<close>.
\<close>

definition wf_store :: "store \<Rightarrow> bool" where
  "wf_store st \<longleftrightarrow>
     distinct (map p_id (pools st)) \<and>
     distinct (map c_id (pool_contributors st)) \<and>
     distinct (map (\<lambda>c. (c_pool_id c, c_user_id c)) (pool_contributors st))"

text \<open>
  What the handler gets from outside: the token verifier (\<open>supabase.auth.getUser\<close>),
  the clock of \<open>new Date()\<close>, the clock of the database (\<open>now()\<close> in the
  \<open>update_updated_at_column\<close> trigger), the value \<open>gen_random_uuid()\<close> gives the next
  inserted row, whether the select of \<open>updatePoolTotals\<close> returns data, the operator
  \<open>+\<close> on JavaScript numbers, and the number \<open>JSON.parse\<close> makes of a column value.
\<close>

record env =
  getUser :: "string \<Rightarrow> uuid option"
  now :: timestamp
  db_now :: timestamp
  gen_random_uuid :: uuid
  contributors_read :: bool
  js_add :: "rat \<Rightarrow> rat \<Rightarrow> rat"
  js_number :: "rat \<Rightarrow> rat"

section \<open>Store queries\<close>

text \<open>
  \<open>.single()\<close>: the data is the row when the query result has exactly one row; the
  result is an error, with no data, otherwise.
\<close>

definition single :: "'a list \<Rightarrow> 'a option" where
  "single rows = (case rows of [r] \<Rightarrow> Some r | _ \<Rightarrow> None)"

text \<open>
  A number sent to an INTEGER column: stored when it is an integer of 32 bits, an error
  of the statement otherwise.
\<close>

definition integer_column :: "rat \<Rightarrow> int option" where
  "integer_column v =
     (if of_int \<lfloor>v\<rfloor> = v \<and> - 2147483648 \<le> \<lfloor>v\<rfloor> \<and> \<lfloor>v\<rfloor> \<le> 2147483647
      then Some \<lfloor>v\<rfloor> else None)"

text \<open>
  The object given to \<open>update\<close> or \<open>insert\<close> on \<open>pool_contributors\<close>: the columns it
  names with their values. The store accepts it when its \<open>cpu_cores\<close>, if named, fits
  the INTEGER column, and then sets the named columns of a row.
\<close>

record changes =
  ch_cpu_cores :: "rat option"
  ch_ram_gb :: "rat option"
  ch_storage_gb :: "rat option"
  ch_status :: "status option"
  ch_last_seen :: "timestamp option"

definition accepted :: "changes \<Rightarrow> bool" where
  "accepted ch \<longleftrightarrow>
     (case ch_cpu_cores ch of None \<Rightarrow> True | Some v \<Rightarrow> integer_column v \<noteq> None)"

definition set_columns :: "changes \<Rightarrow> contributor \<Rightarrow> contributor" where
  "set_columns ch c =
     (let c1 = (case ch_cpu_cores ch of None \<Rightarrow> c | Some v \<Rightarrow> c\<lparr>cpu_cores := integer_column v\<rparr>);
          c2 = (case ch_ram_gb ch of None \<Rightarrow> c1 | Some v \<Rightarrow> c1\<lparr>ram_gb := Some v\<rparr>);
          c3 = (case ch_storage_gb ch of None \<Rightarrow> c2 | Some v \<Rightarrow> c2\<lparr>storage_gb := Some v\<rparr>);
          c4 = (case ch_status ch of None \<Rightarrow> c3 | Some v \<Rightarrow> c3\<lparr>c_status := v\<rparr>)
      in (case ch_last_seen ch of None \<Rightarrow> c4 | Some t \<Rightarrow> c4\<lparr>last_seen := Some t\<rparr>))"

text \<open>
  \<open>.update(..).eq(..).select().single()\<close> on \<open>pool_contributors\<close>: the rows matching
  the filter are updated and returned; when the store does not accept the values, or
  unless exactly one row matches, the call gives an error and the table is as before.
\<close>

definition update_single ::
  "(contributor \<Rightarrow> bool) \<Rightarrow> changes \<Rightarrow> store \<Rightarrow> (contributor \<times> store) option" where
  "update_single P ch st =
     (if \<not> accepted ch then None
      else
        case single (filter P (pool_contributors st)) of
          None \<Rightarrow> None
        | Some r \<Rightarrow>
            Some (set_columns ch r,
                  st\<lparr>pool_contributors :=
                       map (\<lambda>c. if P c then set_columns ch c else c) (pool_contributors st)\<rparr>))"

text \<open>
  \<open>.insert(..).select().single()\<close> on \<open>pool_contributors\<close>: a row with the given
  keys, the named columns set and the others at the defaults of the schema is appended,
  unless the store does not accept the values or the row violates the primary key,
  \<open>UNIQUE(pool_id, user_id)\<close> or the foreign key to \<open>pools\<close>.
\<close>

definition default_row :: "uuid \<Rightarrow> uuid \<Rightarrow> uuid \<Rightarrow> contributor" where
  "default_row new_id poolId user =
     \<lparr>c_id = new_id, c_pool_id = poolId, c_user_id = user,
      cpu_cores = Some 0, ram_gb = Some 0, storage_gb = Some 0,
      c_status = Offline, last_seen = None\<rparr>"

definition insert_contributor ::
  "uuid \<Rightarrow> uuid \<Rightarrow> uuid \<Rightarrow> changes \<Rightarrow> store \<Rightarrow> (contributor \<times> store) option" where
  "insert_contributor new_id poolId user ch st =
     (if \<not> accepted ch
         \<or> new_id \<in> set (map c_id (pool_contributors st))
         \<or> (poolId, user) \<in> set (map (\<lambda>c. (c_pool_id c, c_user_id c)) (pool_contributors st))
         \<or> poolId \<notin> set (map p_id (pools st))
      then None
      else
        let r = set_columns ch (default_row new_id poolId user)
        in Some (r, st\<lparr>pool_contributors := pool_contributors st @ [r]\<rparr>))"

section \<open>The pool totals aggregator\<close>

text \<open>\<open>x || 0\<close> on a number, null or undefined.\<close>

definition or_zero :: "'a::zero option \<Rightarrow> 'a" where
  "or_zero x = (case x of None \<Rightarrow> 0 | Some v \<Rightarrow> v)"

text \<open>The number read from a nullable column of a selected row, then \<open>|| 0\<close>.\<close>

definition column_or_zero :: "env \<Rightarrow> rat option \<Rightarrow> rat" where
  "column_or_zero e x = or_zero (map_option (js_number e) x)"

text \<open>The callback of \<open>contributors.reduce\<close> and the reduction from the zero totals.\<close>

definition add_totals :: "env \<Rightarrow> rat \<times> rat \<times> rat \<Rightarrow> contributor \<Rightarrow> rat \<times> rat \<times> rat" where
  "add_totals e acc c =
     (case acc of (cpu, ram, sto) \<Rightarrow>
        (js_add e cpu (column_or_zero e (map_option of_int (cpu_cores c))),
         js_add e ram (column_or_zero e (ram_gb c)),
         js_add e sto (column_or_zero e (storage_gb c))))"

definition reduce_totals :: "env \<Rightarrow> contributor list \<Rightarrow> rat \<times> rat \<times> rat" where
  "reduce_totals e cs = foldl (add_totals e) (0, 0, 0) cs"

definition select_online :: "env \<Rightarrow> store \<Rightarrow> uuid \<Rightarrow> contributor list option" where
  "select_online e st poolId =
     (if contributors_read e
      then Some (filter (\<lambda>c. c_pool_id c = poolId \<and> c_status c = Online) (pool_contributors st))
      else None)"

definition write_totals :: "env \<Rightarrow> uuid \<Rightarrow> int \<times> rat \<times> rat \<Rightarrow> pool \<Rightarrow> pool" where
  "write_totals e poolId t p =
     (if p_id p = poolId
      then (case t of (cpu, ram, sto) \<Rightarrow>
              p\<lparr>total_cpu_cores := Some cpu, total_ram_gb := Some ram,
                total_storage_gb := Some sto, p_updated_at := db_now e\<rparr>)
      else p)"

text \<open>
  \<open>.from('pools').update(totals).eq('id', poolId)\<close>: one statement for the three
  columns. When \<open>total_cpu_cores\<close> does not fit the INTEGER column the statement fails
  and no row changes; the code does not look at the result.
\<close>

definition update_pool_totals :: "env \<Rightarrow> uuid \<Rightarrow> rat \<times> rat \<times> rat \<Rightarrow> store \<Rightarrow> store" where
  "update_pool_totals e poolId totals st =
     (case totals of (cpu, ram, sto) \<Rightarrow>
        (case integer_column cpu of
           None \<Rightarrow> st
         | Some i \<Rightarrow> st\<lparr>pools := map (write_totals e poolId (i, ram, sto)) (pools st)\<rparr>))"

definition updatePoolTotals :: "env \<Rightarrow> uuid \<Rightarrow> store \<Rightarrow> store" where
  "updatePoolTotals e poolId st0 =
     (let st = st0\<lparr>aggregator_calls := aggregator_calls st0 @ [poolId]\<rparr> in
      case select_online e st poolId of
        None \<Rightarrow> st
      | Some contributors \<Rightarrow> update_pool_totals e poolId (reduce_totals e contributors) st)"

section \<open>The agent API\<close>

record body =
  b_pool_id :: "uuid option"
  b_contributor_id :: "uuid option"
  b_status :: "status option"
  b_cpu_cores :: "rat option"
  b_ram_gb :: "rat option"
  b_storage_gb :: "rat option"

record request =
  r_method :: string
  r_pathname :: string
  r_authorization :: "string option"
  r_json :: "body option"

datatype payload =
    NoContent
  | ErrorBody string
  | RegisteredBody uuid string string
  | MessageBody string
  | PoolsBody "(uuid \<times> string \<times> string) option list" "(uuid \<times> string \<times> string) list"
  | PoolBody pool
  | InviteBody uuid string string
  | EndpointsBody "string list"

record response =
  r_status :: nat
  r_payload :: payload

definition respond :: "nat \<Rightarrow> payload \<Rightarrow> response" where
  "respond code p = \<lparr>r_status = code, r_payload = p\<rparr>"

text \<open>\<open>s.replace(pat, rep)\<close> with a string pattern: the first occurrence is replaced.\<close>

fun replace_first :: "'a list \<Rightarrow> 'a list \<Rightarrow> 'a list \<Rightarrow> 'a list" where
  "replace_first pat rep [] = (if pat = [] then rep else [])"
| "replace_first pat rep (c # cs) =
     (if prefix pat (c # cs) then rep @ drop (length pat) (c # cs)
      else c # replace_first pat rep cs)"

text \<open>\<open>!x\<close> on a string or undefined.\<close>

definition falsy :: "string option \<Rightarrow> bool" where
  "falsy x \<longleftrightarrow> (case x of None \<Rightarrow> True | Some s \<Rightarrow> s = [])"

text \<open>
  The values \<open>/register\<close> passes to \<open>update\<close> when the caller already has a row in
  the pool, and, with \<open>pool_id\<close> and \<open>user_id\<close>, to \<open>insert\<close> otherwise.
\<close>

definition register_values :: "env \<Rightarrow> body \<Rightarrow> changes" where
  "register_values e b =
     \<lparr>ch_cpu_cores = Some (or_zero (b_cpu_cores b)),
      ch_ram_gb = Some (or_zero (b_ram_gb b)),
      ch_storage_gb = Some (or_zero (b_storage_gb b)),
      ch_status = Some Online,
      ch_last_seen = Some (now e)\<rparr>"

definition register :: "env \<Rightarrow> uuid \<Rightarrow> body \<Rightarrow> store \<Rightarrow> response \<times> store" where
  "register e user b st =
     (if falsy (b_pool_id b) then (respond 400 (ErrorBody ''pool_id is required''), st)
      else
        let pid = the (b_pool_id b) in
        case single (filter (\<lambda>p. p_id p = pid) (pools st)) of
          None \<Rightarrow> (respond 404 (ErrorBody ''Pool not found''), st)
        | Some pool \<Rightarrow>
            (case single (filter (\<lambda>c. c_pool_id c = pid \<and> c_user_id c = user) (pool_contributors st)) of
               Some existing \<Rightarrow>
                 (case update_single (\<lambda>c. c_id c = c_id existing) (register_values e b) st of
                    None \<Rightarrow> (respond 500 (ErrorBody ''Failed to update contributor''), st)
                  | Some (updated, st1) \<Rightarrow>
                      (respond 200 (RegisteredBody (c_id existing) (p_name pool) ''Agent reconnected to pool''),
                       updatePoolTotals e pid st1))
             | None \<Rightarrow>
                 (case insert_contributor (gen_random_uuid e) pid user (register_values e b) st of
                    None \<Rightarrow> (respond 500 (ErrorBody ''Failed to register agent''), st)
                  | Some (contributor, st1) \<Rightarrow>
                      (respond 200 (RegisteredBody (c_id contributor) (p_name pool) ''Agent registered successfully''),
                       updatePoolTotals e pid st1))))"

text \<open>The \<open>updateData\<close> object of the heartbeat.\<close>

definition updateData :: "env \<Rightarrow> body \<Rightarrow> changes" where
  "updateData e b =
     \<lparr>ch_cpu_cores = b_cpu_cores b,
      ch_ram_gb = b_ram_gb b,
      ch_storage_gb = b_storage_gb b,
      ch_status = Some (case b_status b of None \<Rightarrow> Online | Some s \<Rightarrow> s),
      ch_last_seen = Some (now e)\<rparr>"

definition heartbeat :: "env \<Rightarrow> uuid \<Rightarrow> body \<Rightarrow> store \<Rightarrow> response \<times> store" where
  "heartbeat e user b st =
     (if falsy (b_contributor_id b) then (respond 400 (ErrorBody ''contributor_id is required''), st)
      else
        case update_single (\<lambda>c. c_id c = the (b_contributor_id b) \<and> c_user_id c = user)
               (updateData e b) st of
          None \<Rightarrow> (respond 500 (ErrorBody ''Failed to update heartbeat''), st)
        | Some (contributor, st1) \<Rightarrow>
            (respond 200 (MessageBody ''Heartbeat received''),
             if b_cpu_cores b \<noteq> None \<or> b_ram_gb b \<noteq> None \<or> b_storage_gb b \<noteq> None
             then updatePoolTotals e (c_pool_id contributor) st1
             else st1))"

text \<open>The object of the disconnect: status and \<open>last_seen\<close> only.\<close>

definition disconnectData :: "env \<Rightarrow> changes" where
  "disconnectData e =
     \<lparr>ch_cpu_cores = None, ch_ram_gb = None, ch_storage_gb = None,
      ch_status = Some Offline, ch_last_seen = Some (now e)\<rparr>"

definition disconnect :: "env \<Rightarrow> uuid \<Rightarrow> body \<Rightarrow> store \<Rightarrow> response \<times> store" where
  "disconnect e user b st =
     (if falsy (b_contributor_id b) then (respond 400 (ErrorBody ''contributor_id is required''), st)
      else
        case update_single (\<lambda>c. c_id c = the (b_contributor_id b) \<and> c_user_id c = user)
               (disconnectData e) st of
          None \<Rightarrow> (respond 500 (ErrorBody ''Failed to disconnect''), st)
        | Some (contributor, st1) \<Rightarrow> (respond 200 (MessageBody ''Agent disconnected''), st1))"

definition pool_summary :: "pool \<Rightarrow> uuid \<times> string \<times> string" where
  "pool_summary p = (p_id p, p_name p, p_invite_code p)"

definition list_pools :: "uuid \<Rightarrow> store \<Rightarrow> response" where
  "list_pools user st =
     respond 200
       (PoolsBody
          (map (\<lambda>c. map_option pool_summary (find (\<lambda>p. p_id p = c_pool_id c) (pools st)))
               (filter (\<lambda>c. c_user_id c = user) (pool_contributors st)))
          (map pool_summary (filter (\<lambda>p. p_owner_id p = user) (pools st))))"

definition get_pool :: "uuid \<Rightarrow> store \<Rightarrow> response" where
  "get_pool poolId st =
     (case single (filter (\<lambda>p. p_id p = poolId) (pools st)) of
        None \<Rightarrow> respond 404 (ErrorBody ''Pool not found'')
      | Some pool \<Rightarrow> respond 200 (PoolBody pool))"

definition lookup_invite :: "string \<Rightarrow> store \<Rightarrow> response" where
  "lookup_invite inviteCode st =
     (case single (filter (\<lambda>p. p_invite_code p = inviteCode) (pools st)) of
        None \<Rightarrow> respond 404 (ErrorBody ''Invalid invite code'')
      | Some pool \<Rightarrow>
          respond 200 (InviteBody (p_id pool) (p_name pool) ''Use /register with this pool_id to join''))"

definition available_endpoints :: "string list" where
  "available_endpoints =
     [''POST /register - Register agent to pool'',
      ''POST /heartbeat - Send heartbeat'',
      ''POST /disconnect - Disconnect agent'',
      ''GET /pools - Get user pools'',
      ''GET /pool/:id - Get pool details'',
      ''POST /join/:invite_code - Lookup pool by invite code'']"

text \<open>
  A handler that calls \<open>req.json()\<close> on a body that is no JSON throws before it touches
  the store; the \<open>catch\<close> of the server answers 500.
\<close>

definition with_json :: "request \<Rightarrow> store \<Rightarrow> (body \<Rightarrow> response \<times> store) \<Rightarrow> response \<times> store" where
  "with_json req st h =
     (case r_json req of
        None \<Rightarrow> (respond 500 (ErrorBody ''Internal server error''), st)
      | Some b \<Rightarrow> h b)"

text \<open>The routes, in the order of the source, for an authenticated user.\<close>

definition dispatch :: "env \<Rightarrow> uuid \<Rightarrow> request \<Rightarrow> string \<Rightarrow> store \<Rightarrow> response \<times> store" where
  "dispatch e user req path st =
     (if r_method req = ''POST'' \<and> path = ''/register'' then with_json req st (\<lambda>b. register e user b st)
      else if r_method req = ''POST'' \<and> path = ''/heartbeat'' then with_json req st (\<lambda>b. heartbeat e user b st)
      else if r_method req = ''POST'' \<and> path = ''/disconnect'' then with_json req st (\<lambda>b. disconnect e user b st)
      else if r_method req = ''GET'' \<and> path = ''/pools'' then (list_pools user st, st)
      else if r_method req = ''GET'' \<and> prefix ''/pool/'' path
        then (get_pool (replace_first ''/pool/'' [] path) st, st)
      else if r_method req = ''POST'' \<and> prefix ''/join/'' path
        then (lookup_invite (replace_first ''/join/'' [] path) st, st)
      else (respond 404 (EndpointsBody available_endpoints), st))"

text \<open>The handler given to \<open>Deno.serve\<close>.\<close>

definition serve :: "env \<Rightarrow> request \<Rightarrow> store \<Rightarrow> response \<times> store" where
  "serve e req st =
     (if r_method req = ''OPTIONS'' then (respond 200 NoContent, st)
      else
        let path = replace_first ''/agent-api'' [] (r_pathname req) in
        case r_authorization req of
          None \<Rightarrow> (respond 401 (ErrorBody ''Missing authorization header''), st)
        | Some authHeader \<Rightarrow>
            if authHeader = [] then (respond 401 (ErrorBody ''Missing authorization header''), st)
            else
              let token = replace_first ''Bearer '' [] authHeader in
              (case getUser e token of
                 None \<Rightarrow> (respond 401 (ErrorBody ''Invalid or expired token''), st)
               | Some user \<Rightarrow> dispatch e user req path st))"

section \<open>The visibility predicate\<close>

text \<open>
  \<open>pools p LEFT JOIN pool_contributors pc ON pc.pool_id = p.id\<close>: every pool with each
  of its contributors, or once with NULL when it has none.
\<close>

definition pools_left_join_contributors :: "store \<Rightarrow> pool list \<Rightarrow> (pool \<times> contributor option) list" where
  "pools_left_join_contributors st ps =
     concat (map (\<lambda>p.
       (case filter (\<lambda>pc. c_pool_id pc = p_id p) (pool_contributors st) of
          [] \<Rightarrow> [(p, None)]
        | pcs \<Rightarrow> map (\<lambda>pc. (p, Some pc)) pcs)) ps)"

text \<open>\<open>pc.user_id = u\<close> in a WHERE clause: not true on the NULL row of the left join.\<close>

definition pc_user_is :: "contributor option \<Rightarrow> uuid \<Rightarrow> bool" where
  "pc_user_is pc u \<longleftrightarrow> (case pc of None \<Rightarrow> False | Some c \<Rightarrow> c_user_id c = u)"

definition same_pool_branch :: "store \<Rightarrow> uuid \<Rightarrow> uuid \<Rightarrow> bool" where
  "same_pool_branch st viewer_id target_id \<longleftrightarrow>
     list_ex (\<lambda>(p, pc).
        (p_owner_id p = viewer_id \<or> pc_user_is pc viewer_id)
        \<and> (p_owner_id p = target_id
           \<or> list_ex (\<lambda>pc2. c_pool_id pc2 = p_id p \<and> c_user_id pc2 = target_id) (pool_contributors st)))
       (pools_left_join_contributors st (pools st))"

text \<open>
  \<open>servers s JOIN server_pool_assignments spa ON spa.server_id = s.id
  JOIN pools p ON p.id = spa.pool_id LEFT JOIN pool_contributors pc ON pc.pool_id = p.id\<close>.
\<close>

definition server_join :: "store \<Rightarrow> (server \<times> assignment \<times> pool \<times> contributor option) list" where
  "server_join st =
     concat (map (\<lambda>s.
       concat (map (\<lambda>spa.
         map (\<lambda>(p, pc). (s, spa, p, pc))
             (pools_left_join_contributors st (filter (\<lambda>p. p_id p = spa_pool_id spa) (pools st))))
         (filter (\<lambda>spa. spa_server_id spa = s_id s) (server_pool_assignments st))))
       (servers st))"

definition server_branch :: "store \<Rightarrow> uuid \<Rightarrow> uuid \<Rightarrow> bool" where
  "server_branch st viewer_id target_id \<longleftrightarrow>
     list_ex (\<lambda>(s, spa, p, pc).
        s_owner_id s = viewer_id \<and> (p_owner_id p = target_id \<or> pc_user_is pc target_id))
       (server_join st)"

definition users_share_pool :: "store \<Rightarrow> uuid \<Rightarrow> uuid \<Rightarrow> bool" where
  "users_share_pool st viewer_id target_id \<longleftrightarrow>
     same_pool_branch st viewer_id target_id \<or> server_branch st viewer_id target_id"

section \<open>Vocabulary of the properties\<close>

text \<open>
  The notions the properties are stated in: membership of a pool and the wider pool
  relationship, the sums over the online rows of a pool, consistency of the cached totals
  with them, exactness of the JavaScript summation, which heartbeats carry a resource
  field, and the occurrences of a pattern in a string.
\<close>

definition owner_or_contributor :: "store \<Rightarrow> pool \<Rightarrow> uuid \<Rightarrow> bool" where
  "owner_or_contributor st p u \<longleftrightarrow>
     p_owner_id p = u \<or> list_ex (\<lambda>c. c_pool_id c = p_id p \<and> c_user_id c = u) (pool_contributors st)"

text \<open>
  A user is a pool member when they own or contribute to some pool; two users are
  co-members when one pool has both as owner or contributor.
\<close>

definition pool_member :: "store \<Rightarrow> uuid \<Rightarrow> bool" where
  "pool_member st u \<longleftrightarrow> list_ex (\<lambda>p. owner_or_contributor st p u) (pools st)"

definition co_members :: "store \<Rightarrow> uuid \<Rightarrow> uuid \<Rightarrow> bool" where
  "co_members st a b \<longleftrightarrow>
     list_ex (\<lambda>p. owner_or_contributor st p a \<and> owner_or_contributor st p b) (pools st)"

text \<open>The viewer owns a server that a \<open>server_pool_assignments\<close> row assigns to the pool.\<close>

definition owns_server_assigned_to :: "store \<Rightarrow> uuid \<Rightarrow> pool \<Rightarrow> bool" where
  "owns_server_assigned_to st viewer p \<longleftrightarrow>
     list_ex (\<lambda>s. s_owner_id s = viewer \<and>
        list_ex (\<lambda>spa. spa_server_id spa = s_id s \<and> spa_pool_id spa = p_id p)
          (server_pool_assignments st)) (servers st)"

text \<open>
  A pool relationship, in either of the two ways the policy counts: the user is owner of
  or contributor to some pool, or owns a server assigned to some pool.
\<close>

definition has_pool_relationship :: "store \<Rightarrow> uuid \<Rightarrow> bool" where
  "has_pool_relationship st u \<longleftrightarrow>
     list_ex (\<lambda>p. owner_or_contributor st p u \<or> owns_server_assigned_to st u p) (pools st)"


text \<open>
  The online rows of a pool and the sums the totals are meant to cache, NULL counted
  as 0.
\<close>

definition online_rows :: "store \<Rightarrow> uuid \<Rightarrow> contributor list" where
  "online_rows st pid = filter (\<lambda>c. c_pool_id c = pid \<and> c_status c = Online) (pool_contributors st)"

definition online_cpu :: "store \<Rightarrow> uuid \<Rightarrow> int" where
  "online_cpu st pid = (\<Sum>c\<leftarrow>online_rows st pid. or_zero (cpu_cores c))"

definition online_ram :: "store \<Rightarrow> uuid \<Rightarrow> rat" where
  "online_ram st pid = (\<Sum>c\<leftarrow>online_rows st pid. or_zero (ram_gb c))"

definition online_storage :: "store \<Rightarrow> uuid \<Rightarrow> rat" where
  "online_storage st pid = (\<Sum>c\<leftarrow>online_rows st pid. or_zero (storage_gb c))"

definition totals_consistent :: "store \<Rightarrow> pool \<Rightarrow> bool" where
  "totals_consistent st p \<longleftrightarrow>
     total_cpu_cores p = Some (online_cpu st (p_id p)) \<and>
     total_ram_gb p = Some (online_ram st (p_id p)) \<and>
     total_storage_gb p = Some (online_storage st (p_id p))"

definition pool_totals_consistent :: "store \<Rightarrow> uuid \<Rightarrow> bool" where
  "pool_totals_consistent st pid \<longleftrightarrow>
     list_all (\<lambda>p. p_id p = pid \<longrightarrow> totals_consistent st p) (pools st)"

definition all_totals_consistent :: "store \<Rightarrow> bool" where
  "all_totals_consistent st \<longleftrightarrow> list_all (totals_consistent st) (pools st)"

text \<open>
  The JavaScript sums over the online rows of a pool are exact: the reduction gives the
  three sums above, and the sum of \<open>cpu_cores\<close> fits the INTEGER column.
\<close>

definition sums_exact :: "env \<Rightarrow> store \<Rightarrow> uuid \<Rightarrow> bool" where
  "sums_exact e st pid \<longleftrightarrow>
     reduce_totals e (online_rows st pid) =
       (of_int (online_cpu st pid), online_ram st pid, online_storage st pid) \<and>
     integer_column (of_int (online_cpu st pid)) = Some (online_cpu st pid)"

text \<open>
  A heartbeat carries a resource field when one of \<open>cpu_cores\<close>, \<open>ram_gb\<close>,
  \<open>storage_gb\<close> is present; a row is owned by the caller when id and user match.
\<close>

definition has_resource_field :: "body \<Rightarrow> bool" where
  "has_resource_field b \<longleftrightarrow> b_cpu_cores b \<noteq> None \<or> b_ram_gb b \<noteq> None \<or> b_storage_gb b \<noteq> None"

definition owned_row :: "uuid \<Rightarrow> uuid \<Rightarrow> contributor \<Rightarrow> bool" where
  "owned_row cid user c \<longleftrightarrow> c_id c = cid \<and> c_user_id c = user"

text \<open>The store after the update a heartbeat makes to the caller's row.\<close>

definition heartbeat_rows :: "env \<Rightarrow> uuid \<Rightarrow> body \<Rightarrow> store \<Rightarrow> store" where
  "heartbeat_rows e user b st =
     st\<lparr>pool_contributors :=
          map (\<lambda>x. if owned_row (the (b_contributor_id b)) user x
                    then set_columns (updateData e b) x else x)
              (pool_contributors st)\<rparr>"


text \<open>
  Occurrences of a pattern in a string by position, to say what removing the first
  occurrence means; and the requests that carry no credential the verifier accepts.
\<close>

definition occurs_at :: "'a list \<Rightarrow> 'a list \<Rightarrow> nat \<Rightarrow> bool" where
  "occurs_at pat s i \<longleftrightarrow> i \<le> length s \<and> take (length pat) (drop i s) = pat"

definition first_occurrence :: "'a list \<Rightarrow> 'a list \<Rightarrow> nat \<Rightarrow> bool" where
  "first_occurrence pat s i \<longleftrightarrow> occurs_at pat s i \<and> (\<forall>j<i. \<not> occurs_at pat s j)"

definition no_occurrence :: "'a list \<Rightarrow> 'a list \<Rightarrow> bool" where
  "no_occurrence pat s \<longleftrightarrow> (\<forall>i\<le>length s. \<not> occurs_at pat s i)"

definition unauthenticated :: "env \<Rightarrow> request \<Rightarrow> bool" where
  "unauthenticated e req \<longleftrightarrow>
     (case r_authorization req of
        None \<Rightarrow> True
      | Some h \<Rightarrow> h = [] \<or> getUser e (replace_first ''Bearer '' [] h) = None)"


section \<open>Example stores and requests\<close>

text \<open>
  Pool \<open>P\<close> of owner \<open>o\<close>, with the contributor row \<open>C\<close> of user \<open>c\<close> and a server of
  user \<open>v\<close> assigned to it; the same pool before anyone joined; and the pool after
  \<open>c\<close> went offline without a recomputation of the totals.
\<close>

definition asym_store :: store where
  "asym_store =
     \<lparr>pools = [\<lparr>p_id = ''P'', p_owner_id = ''o'', p_name = ''pool'', p_invite_code = ''INV'',
                total_cpu_cores = Some 4, total_ram_gb = Some 8, total_storage_gb = Some 50,
                p_updated_at = 0\<rparr>],
      pool_contributors = [\<lparr>c_id = ''C'', c_pool_id = ''P'', c_user_id = ''c'',
                cpu_cores = Some 4, ram_gb = Some 8, storage_gb = Some 50,
                c_status = Online, last_seen = None\<rparr>],
      servers = [\<lparr>s_id = ''S'', s_owner_id = ''v''\<rparr>],
      server_pool_assignments = [\<lparr>spa_server_id = ''S'', spa_pool_id = ''P''\<rparr>],
      aggregator_calls = []\<rparr>"

definition asym_pool :: pool where
  "asym_pool = \<lparr>p_id = ''P'', p_owner_id = ''o'', p_name = ''pool'', p_invite_code = ''INV'',
                total_cpu_cores = Some 4, total_ram_gb = Some 8, total_storage_gb = Some 50,
                p_updated_at = 0\<rparr>"


definition verifier :: "string \<Rightarrow> uuid option" where
  "verifier t =
     (if t = ''tok-a'' then Some ''a''
      else if t = ''tok-b'' then Some ''b''
      else if t = ''tok-c'' then Some ''c''
      else None)"

text \<open>
  An addition that is exact except that 0.1 + 0.2 is 0.30000000000000004, as it is for
  doubles.
\<close>

definition rounding_add :: "rat \<Rightarrow> rat \<Rightarrow> rat" where
  "rounding_add a b =
     (if a = 1 / 10 \<and> b = 2 / 10 then 30000000000000004 / 100000000000000000 else a + b)"

definition env_up :: env where
  "env_up = \<lparr>getUser = verifier, now = 100, db_now = 101, gen_random_uuid = ''C1'',
             contributors_read = True, js_add = rounding_add, js_number = (\<lambda>x. x)\<rparr>"

definition env_down :: env where
  "env_down = \<lparr>getUser = verifier, now = 100, db_now = 101, gen_random_uuid = ''C1'',
               contributors_read = False, js_add = rounding_add, js_number = (\<lambda>x. x)\<rparr>"

definition env_later :: env where
  "env_later = \<lparr>getUser = verifier, now = 200, db_now = 201, gen_random_uuid = ''C2'',
                contributors_read = True, js_add = rounding_add, js_number = (\<lambda>x. x)\<rparr>"

definition env_later_down :: env where
  "env_later_down = \<lparr>getUser = verifier, now = 200, db_now = 201, gen_random_uuid = ''C2'',
                     contributors_read = False, js_add = rounding_add, js_number = (\<lambda>x. x)\<rparr>"

definition register_body :: "uuid \<Rightarrow> rat option \<Rightarrow> rat option \<Rightarrow> rat option \<Rightarrow> body" where
  "register_body pid cpu ram sto =
     \<lparr>b_pool_id = Some pid, b_contributor_id = None, b_status = None,
      b_cpu_cores = cpu, b_ram_gb = ram, b_storage_gb = sto\<rparr>"

definition heartbeat_body ::
  "uuid \<Rightarrow> status option \<Rightarrow> rat option \<Rightarrow> rat option \<Rightarrow> rat option \<Rightarrow> body" where
  "heartbeat_body cid s cpu ram sto =
     \<lparr>b_pool_id = None, b_contributor_id = Some cid, b_status = s,
      b_cpu_cores = cpu, b_ram_gb = ram, b_storage_gb = sto\<rparr>"

definition post :: "string \<Rightarrow> string option \<Rightarrow> body \<Rightarrow> request" where
  "post path auth b =
     \<lparr>r_method = ''POST'', r_pathname = ''/agent-api'' @ path, r_authorization = auth,
      r_json = Some b\<rparr>"

definition fresh_store :: store where
  "fresh_store =
     \<lparr>pools = [\<lparr>p_id = ''P'', p_owner_id = ''o'', p_name = ''pool'', p_invite_code = ''INV'',
                total_cpu_cores = Some 0, total_ram_gb = Some 0, total_storage_gb = Some 0,
                p_updated_at = 0\<rparr>],
      pool_contributors = [], servers = [], server_pool_assignments = [],
      aggregator_calls = []\<rparr>"

definition asym_row :: contributor where
  "asym_row = \<lparr>c_id = ''C'', c_pool_id = ''P'', c_user_id = ''c'',
                cpu_cores = Some 4, ram_gb = Some 8, storage_gb = Some 50,
                c_status = Online, last_seen = None\<rparr>"

definition stale_store :: store where
  "stale_store =
     \<lparr>pools = [\<lparr>p_id = ''P'', p_owner_id = ''o'', p_name = ''pool'', p_invite_code = ''INV'',
                total_cpu_cores = Some 4, total_ram_gb = Some 8, total_storage_gb = Some 50,
                p_updated_at = 0\<rparr>],
      pool_contributors = [\<lparr>c_id = ''C'', c_pool_id = ''P'', c_user_id = ''c'',
                cpu_cores = Some 4, ram_gb = Some 8, storage_gb = Some 50,
                c_status = Offline, last_seen = Some 100\<rparr>],
      servers = [], server_pool_assignments = [], aggregator_calls = []\<rparr>"

text \<open>
  User \<open>a\<close> registers to the empty pool with 4 cores, 8 GB of RAM and 50 GB of storage,
  and then either goes offline by a heartbeat, or disconnects, or registers again with
  2 cores, no RAM figure and 20 GB of storage.
\<close>

definition first_register :: body where
  "first_register = register_body ''P'' (Some 4) (Some 8) (Some 50)"

definition second_register :: body where
  "second_register = register_body ''P'' (Some 2) None (Some 20)"

definition oversized_register :: body where
  "oversized_register = register_body ''P'' (Some 2147483648) (Some 16) (Some 100)"

definition offline_heartbeat :: body where
  "offline_heartbeat = heartbeat_body ''C1'' (Some Offline) None None None"





text \<open>
  Two more pools: one whose two online rows offer 0.1 and 0.2 GB of RAM, and one whose
  two online rows each offer the largest number of cores the column holds.
\<close>

definition fraction_store :: store where
  "fraction_store =
     \<lparr>pools = [\<lparr>p_id = ''P'', p_owner_id = ''o'', p_name = ''pool'', p_invite_code = ''INV'',
                total_cpu_cores = Some 0, total_ram_gb = Some 0, total_storage_gb = Some 0,
                p_updated_at = 0\<rparr>],
      pool_contributors =
        [\<lparr>c_id = ''A'', c_pool_id = ''P'', c_user_id = ''a'',
          cpu_cores = Some 1, ram_gb = Some (1 / 10), storage_gb = Some 0,
          c_status = Online, last_seen = None\<rparr>,
         \<lparr>c_id = ''B'', c_pool_id = ''P'', c_user_id = ''b'',
          cpu_cores = Some 1, ram_gb = Some (2 / 10), storage_gb = Some 0,
          c_status = Online, last_seen = None\<rparr>],
      servers = [], server_pool_assignments = [], aggregator_calls = []\<rparr>"

definition crowded_store :: store where
  "crowded_store =
     \<lparr>pools = [\<lparr>p_id = ''P'', p_owner_id = ''o'', p_name = ''pool'', p_invite_code = ''INV'',
                total_cpu_cores = Some 0, total_ram_gb = Some 0, total_storage_gb = Some 0,
                p_updated_at = 0\<rparr>],
      pool_contributors =
        [\<lparr>c_id = ''A'', c_pool_id = ''P'', c_user_id = ''a'',
          cpu_cores = Some 2147483647, ram_gb = Some 1, storage_gb = Some 1,
          c_status = Online, last_seen = None\<rparr>,
         \<lparr>c_id = ''B'', c_pool_id = ''P'', c_user_id = ''b'',
          cpu_cores = Some 2147483647, ram_gb = Some 1, storage_gb = Some 1,
          c_status = Online, last_seen = None\<rparr>],
      servers = [], server_pool_assignments = [], aggregator_calls = []\<rparr>"


section \<open>The visibility predicate as a relation on pool members\<close>

lemma set_left_join_row:
  "set (case xs of [] \<Rightarrow> [(p, None)] | pcs \<Rightarrow> map (\<lambda>pc. (p, Some pc)) pcs) =
     (if xs = [] then {(p, None)} else (\<lambda>pc. (p, Some pc)) ` set xs)"
  by (cases xs) simp_all

lemma left_join_iff:
  "(p, pc) \<in> set (pools_left_join_contributors st ps) \<longleftrightarrow>
     p \<in> set ps \<and>
     (case pc of
        None \<Rightarrow> \<forall>c \<in> set (pool_contributors st). c_pool_id c \<noteq> p_id p
      | Some c \<Rightarrow> c \<in> set (pool_contributors st) \<and> c_pool_id c = p_id p)"
  unfolding pools_left_join_contributors_def
  by (cases pc) (auto simp: set_left_join_row filter_empty_conv)

lemma left_join_row_exists:
  assumes p: "p \<in> set (pools st)" and member: "owner_or_contributor st p u"
  shows "\<exists>pc. (p, pc) \<in> set (pools_left_join_contributors st (pools st))
           \<and> (p_owner_id p = u \<or> pc_user_is pc u)"
proof (cases "\<exists>c \<in> set (pool_contributors st). c_pool_id c = p_id p \<and> c_user_id c = u")
  case True
  then obtain c where "c \<in> set (pool_contributors st)" "c_pool_id c = p_id p" "c_user_id c = u"
    by blast
  with p have "(p, Some c) \<in> set (pools_left_join_contributors st (pools st)) \<and> pc_user_is (Some c) u"
    by (simp add: left_join_iff pc_user_is_def)
  then show ?thesis by blast
next
  case False
  with member have own: "p_owner_id p = u"
    by (auto simp: owner_or_contributor_def list_ex_iff)
  show ?thesis
  proof (cases "\<exists>c \<in> set (pool_contributors st). c_pool_id c = p_id p")
    case True
    then obtain c where "c \<in> set (pool_contributors st)" "c_pool_id c = p_id p" by blast
    with p have "(p, Some c) \<in> set (pools_left_join_contributors st (pools st))"
      by (simp add: left_join_iff)
    with own show ?thesis by blast
  next
    case False
    with p have "(p, None) \<in> set (pools_left_join_contributors st (pools st))"
      by (simp add: left_join_iff)
    with own show ?thesis by blast
  qed
qed

lemma same_pool_branch_iff:
  "same_pool_branch st v t \<longleftrightarrow>
     (\<exists>p \<in> set (pools st). owner_or_contributor st p v \<and> owner_or_contributor st p t)"
proof
  assume "same_pool_branch st v t"
  then obtain p pc where in_join: "(p, pc) \<in> set (pools_left_join_contributors st (pools st))"
    and viewer: "p_owner_id p = v \<or> pc_user_is pc v"
    and target: "owner_or_contributor st p t"
    by (auto simp: same_pool_branch_def list_ex_iff owner_or_contributor_def)
  from in_join viewer have "owner_or_contributor st p v"
    by (cases pc) (auto simp: left_join_iff pc_user_is_def owner_or_contributor_def list_ex_iff)
  with in_join target show "\<exists>p \<in> set (pools st). owner_or_contributor st p v \<and> owner_or_contributor st p t"
    by (auto simp: left_join_iff)
next
  assume "\<exists>p \<in> set (pools st). owner_or_contributor st p v \<and> owner_or_contributor st p t"
  then obtain p where p: "p \<in> set (pools st)" and viewer: "owner_or_contributor st p v"
    and target: "owner_or_contributor st p t" by blast
  from left_join_row_exists [OF p viewer]
  have "\<exists>pc. (p, pc) \<in> set (pools_left_join_contributors st (pools st))
           \<and> (p_owner_id p = v \<or> pc_user_is pc v)" .
  with target show "same_pool_branch st v t"
    by (fastforce simp: same_pool_branch_def list_ex_iff owner_or_contributor_def)
qed

lemma server_join_iff:
  "(s, spa, p, pc) \<in> set (server_join st) \<longleftrightarrow>
     s \<in> set (servers st) \<and> spa \<in> set (server_pool_assignments st) \<and> spa_server_id spa = s_id s
     \<and> p_id p = spa_pool_id spa \<and> (p, pc) \<in> set (pools_left_join_contributors st (pools st))"
proof -
  have tuple: "\<And>s' spa' X. (s, spa, p, pc) \<in> (\<lambda>row. (s', spa', row)) ` X
      \<longleftrightarrow> s = s' \<and> spa = spa' \<and> (p, pc) \<in> X"
    by auto
  show ?thesis
    unfolding server_join_def
    by (simp add: tuple left_join_iff) blast
qed

lemma server_branch_iff:
  "server_branch st v t \<longleftrightarrow>
     (\<exists>s \<in> set (servers st). \<exists>spa \<in> set (server_pool_assignments st). \<exists>p \<in> set (pools st).
        s_owner_id s = v \<and> spa_server_id spa = s_id s \<and> p_id p = spa_pool_id spa
        \<and> owner_or_contributor st p t)"
proof
  assume "server_branch st v t"
  then obtain s spa p pc where j: "(s, spa, p, pc) \<in> set (server_join st)"
    and own: "s_owner_id s = v" and tgt: "p_owner_id p = t \<or> pc_user_is pc t"
    by (auto simp: server_branch_def list_ex_iff)
  from j tgt have "owner_or_contributor st p t"
    by (cases pc) (auto simp: server_join_iff left_join_iff pc_user_is_def owner_or_contributor_def list_ex_iff)
  with j own show "\<exists>s \<in> set (servers st). \<exists>spa \<in> set (server_pool_assignments st). \<exists>p \<in> set (pools st).
        s_owner_id s = v \<and> spa_server_id spa = s_id s \<and> p_id p = spa_pool_id spa
        \<and> owner_or_contributor st p t"
    by (auto simp: server_join_iff left_join_iff)
next
  assume "\<exists>s \<in> set (servers st). \<exists>spa \<in> set (server_pool_assignments st). \<exists>p \<in> set (pools st).
        s_owner_id s = v \<and> spa_server_id spa = s_id s \<and> p_id p = spa_pool_id spa
        \<and> owner_or_contributor st p t"
  then obtain s spa p where s: "s \<in> set (servers st)" and spa: "spa \<in> set (server_pool_assignments st)"
    and p: "p \<in> set (pools st)" and own: "s_owner_id s = v" and on: "spa_server_id spa = s_id s"
    and pid: "p_id p = spa_pool_id spa" and tgt: "owner_or_contributor st p t"
    by blast
  from left_join_row_exists [OF p tgt]
  have "\<exists>pc. (p, pc) \<in> set (pools_left_join_contributors st (pools st))
           \<and> (p_owner_id p = t \<or> pc_user_is pc t)" .
  then obtain pc where "(p, pc) \<in> set (pools_left_join_contributors st (pools st))"
    "p_owner_id p = t \<or> pc_user_is pc t" by blast
  with s spa own on pid have "(s, spa, p, pc) \<in> set (server_join st) \<and> s_owner_id s = v
      \<and> (p_owner_id p = t \<or> pc_user_is pc t)"
    by (simp add: server_join_iff)
  then show "server_branch st v t"
    unfolding server_branch_def list_ex_iff by blast
qed


text \<open>
  C6, as the code has it. \<open>users_share_pool\<close> holds of a user and themself when the user is
  owner of or contributor to at least one pool, and it holds in both directions of two
  users who are each owner of or contributor to one and the same pool.
\<close>

theorem users_share_pool_reflexive_symmetric:
  "(pool_member st u \<longrightarrow> users_share_pool st u u) \<and>
   (co_members st a b \<longrightarrow> users_share_pool st a b \<and> users_share_pool st b a)"
  unfolding users_share_pool_def same_pool_branch_iff pool_member_def co_members_def
    list_ex_iff
  by blast

theorem users_share_pool_reflexive_symmetric_witness:
  "pool_member asym_store ''c'' \<and> users_share_pool asym_store ''c'' ''c''
   \<and> co_members asym_store ''o'' ''c''
   \<and> users_share_pool asym_store ''o'' ''c'' \<and> users_share_pool asym_store ''c'' ''o''"
proof -
  have rel: "pool_member asym_store ''c''"
    by (simp add: pool_member_def owner_or_contributor_def asym_store_def)
  have co: "co_members asym_store ''o'' ''c''"
    by (simp add: co_members_def owner_or_contributor_def asym_store_def)
  from rel co users_share_pool_reflexive_symmetric [of asym_store "''c''" "''o''" "''c''"]
  show ?thesis by blast
qed

text \<open>
  The claim C6 itself speaks of every user with a pool relationship, and the policy
  counts owning a server assigned to a pool as one. User \<open>v\<close> of the example owns such a
  server, is neither owner of nor contributor to any pool, and does not share a pool
  with themself.
\<close>

theorem server_owner_not_reflexive_counterexample:
  "has_pool_relationship asym_store ''v'' \<and> \<not> pool_member asym_store ''v'' \<and>
   \<not> users_share_pool asym_store ''v'' ''v''"
  by (simp add: has_pool_relationship_def pool_member_def owner_or_contributor_def
      owns_server_assigned_to_def users_share_pool_def same_pool_branch_def
      server_branch_def server_join_def pools_left_join_contributors_def pc_user_is_def
      asym_store_def)

text \<open>
  C7. A viewer who owns a server assigned to a pool shares a pool with every owner and
  contributor of that pool; the grant is one-way: there is a store where the owner of
  such a server sees a contributor of the pool, the two are members of no common pool,
  and the contributor does not see the server's owner.
\<close>

theorem server_owner_sees_pool_members_asymmetric:
  "(p \<in> set (pools st) \<and> owns_server_assigned_to st viewer p \<and> owner_or_contributor st p t
      \<longrightarrow> users_share_pool st viewer t)
   \<and> (\<exists>st' p' owner contrib.
         p' \<in> set (pools st') \<and> owns_server_assigned_to st' owner p'
         \<and> owner_or_contributor st' p' contrib \<and> \<not> co_members st' owner contrib
         \<and> users_share_pool st' owner contrib \<and> \<not> users_share_pool st' contrib owner)"
proof
  show "p \<in> set (pools st) \<and> owns_server_assigned_to st viewer p \<and> owner_or_contributor st p t
      \<longrightarrow> users_share_pool st viewer t"
    unfolding users_share_pool_def server_branch_iff owns_server_assigned_to_def list_ex_iff
    by metis
next
  have "asym_pool \<in> set (pools asym_store)"
    by (simp add: asym_store_def asym_pool_def)
  moreover have "owns_server_assigned_to asym_store ''v'' asym_pool"
    by (simp add: owns_server_assigned_to_def asym_store_def asym_pool_def)
  moreover have "owner_or_contributor asym_store asym_pool ''c''"
    by (simp add: owner_or_contributor_def asym_store_def asym_pool_def)
  moreover have "\<not> co_members asym_store ''v'' ''c''"
    by (simp add: co_members_def owner_or_contributor_def asym_store_def)
  moreover have "users_share_pool asym_store ''v'' ''c''"
    by (simp add: users_share_pool_def same_pool_branch_def server_branch_def server_join_def
        pools_left_join_contributors_def pc_user_is_def asym_store_def)
  moreover have "\<not> users_share_pool asym_store ''c'' ''v''"
    by (simp add: users_share_pool_def same_pool_branch_def server_branch_def server_join_def
        pools_left_join_contributors_def pc_user_is_def asym_store_def)
  ultimately show "\<exists>st' p' owner contrib.
         p' \<in> set (pools st') \<and> owns_server_assigned_to st' owner p'
         \<and> owner_or_contributor st' p' contrib \<and> \<not> co_members st' owner contrib
         \<and> users_share_pool st' owner contrib \<and> \<not> users_share_pool st' contrib owner"
    by blast
qed

theorem server_owner_sees_pool_members_asymmetric_witness:
  "asym_pool \<in> set (pools asym_store) \<and> owns_server_assigned_to asym_store ''v'' asym_pool
   \<and> owner_or_contributor asym_store asym_pool ''o'' \<and> users_share_pool asym_store ''v'' ''o''"
proof -
  have h: "asym_pool \<in> set (pools asym_store) \<and> owns_server_assigned_to asym_store ''v'' asym_pool
      \<and> owner_or_contributor asym_store asym_pool ''o''"
    by (simp add: owns_server_assigned_to_def owner_or_contributor_def asym_store_def asym_pool_def)
  with server_owner_sees_pool_members_asymmetric [of asym_pool asym_store "''v''" "''o''"]
  show ?thesis by blast
qed


section \<open>The aggregator\<close>


lemma integer_column_zero: "integer_column 0 = Some 0"
  by (simp add: integer_column_def)

lemma foldl_add_totals_exact:
  assumes "\<And>a b. js_add e a b = a + b" and "\<And>x. js_number e x = x"
  shows "foldl (add_totals e) (of_int cpu, ram, sto) cs =
     (of_int (cpu + (\<Sum>c\<leftarrow>cs. or_zero (cpu_cores c))),
      ram + (\<Sum>c\<leftarrow>cs. or_zero (ram_gb c)),
      sto + (\<Sum>c\<leftarrow>cs. or_zero (storage_gb c)))"
proof (induction cs arbitrary: cpu ram sto)
  case Nil
  then show ?case by simp
next
  case (Cons c cs)
  have step: "add_totals e (of_int cpu, ram, sto) c =
      (of_int (cpu + or_zero (cpu_cores c)), ram + or_zero (ram_gb c), sto + or_zero (storage_gb c))"
    by (cases "cpu_cores c"; cases "ram_gb c"; cases "storage_gb c")
       (simp_all add: add_totals_def column_or_zero_def or_zero_def assms)
  show ?case by (simp add: step Cons.IH add.assoc del: of_int_add)
qed

text \<open>With exact arithmetic the reduction gives the exact sums.\<close>

lemma reduce_totals_exact:
  assumes "\<And>a b. js_add e a b = a + b" and "\<And>x. js_number e x = x"
  shows "reduce_totals e cs =
     (of_int (\<Sum>c\<leftarrow>cs. or_zero (cpu_cores c)), (\<Sum>c\<leftarrow>cs. or_zero (ram_gb c)),
      (\<Sum>c\<leftarrow>cs. or_zero (storage_gb c)))"
  using foldl_add_totals_exact [OF assms, of 0 0 0 cs] by (simp add: reduce_totals_def)

lemma updatePoolTotals_frame:
  "pool_contributors (updatePoolTotals e pid st) = pool_contributors st"
  "servers (updatePoolTotals e pid st) = servers st"
  "server_pool_assignments (updatePoolTotals e pid st) = server_pool_assignments st"
  "aggregator_calls (updatePoolTotals e pid st) = aggregator_calls st @ [pid]"
  "map p_id (pools (updatePoolTotals e pid st)) = map p_id (pools st)"
  by (simp_all add: updatePoolTotals_def select_online_def update_pool_totals_def
      write_totals_def Let_def split: prod.splits option.splits)




text \<open>
  When the sum of \<open>cpu_cores\<close> does not fit the INTEGER column the \<open>pools\<close> table is
  as before.
\<close>

lemma updatePoolTotals_rejected_write:
  assumes "select_online e st pid = Some cs" and "integer_column (fst (reduce_totals e cs)) = None"
  shows "pools (updatePoolTotals e pid st) = pools st"
  using assms
  by (auto simp: updatePoolTotals_def Let_def select_online_def update_pool_totals_def
      split: prod.splits if_splits)





lemma select_online_ghost:
  "select_online e (st\<lparr>aggregator_calls := calls\<rparr>) pid = select_online e st pid"
  by (simp add: select_online_def)

text \<open>
  C10. When the select of the online contributors returns no data, \<open>updatePoolTotals\<close>
  returns with the \<open>pools\<close> table (and the contributors) as they were, the old totals
  kept; when it returns the empty list, the three totals of the pool are overwritten
  with 0.
\<close>

theorem updatePoolTotals_writes_only_after_read:
  "(select_online e st pid = None \<longrightarrow>
      pools (updatePoolTotals e pid st) = pools st \<and>
      pool_contributors (updatePoolTotals e pid st) = pool_contributors st)
   \<and> (select_online e st pid = Some [] \<longrightarrow>
        pools (updatePoolTotals e pid st) =
          map (\<lambda>p. if p_id p = pid
                    then p\<lparr>total_cpu_cores := Some 0, total_ram_gb := Some 0,
                           total_storage_gb := Some 0, p_updated_at := db_now e\<rparr>
                    else p) (pools st))"
  by (simp add: updatePoolTotals_def Let_def select_online_ghost reduce_totals_def
      update_pool_totals_def integer_column_zero write_totals_def)

theorem updatePoolTotals_writes_only_after_read_witness:
  "select_online env_down asym_store ''P'' = None
   \<and> pools (updatePoolTotals env_down ''P'' asym_store) = pools asym_store
   \<and> map total_cpu_cores (pools asym_store) = [Some 4]
   \<and> select_online env_up stale_store ''P'' = Some []
   \<and> map total_cpu_cores (pools stale_store) = [Some 4]
   \<and> map total_cpu_cores (pools (updatePoolTotals env_up ''P'' stale_store)) = [Some 0]
   \<and> map total_ram_gb (pools (updatePoolTotals env_up ''P'' stale_store)) = [Some 0]
   \<and> map total_storage_gb (pools (updatePoolTotals env_up ''P'' stale_store)) = [Some 0]"
proof -
  have down: "select_online env_down asym_store ''P'' = None"
    by (simp add: select_online_def env_down_def)
  have up: "select_online env_up stale_store ''P'' = Some []"
    by (simp add: select_online_def env_up_def stale_store_def)
  from updatePoolTotals_writes_only_after_read [of env_down asym_store "''P''"] down
  have a: "pools (updatePoolTotals env_down ''P'' asym_store) = pools asym_store" by simp
  from updatePoolTotals_writes_only_after_read [of env_up stale_store "''P''"] up
  have b: "pools (updatePoolTotals env_up ''P'' stale_store) =
          map (\<lambda>p. if p_id p = ''P''
                    then p\<lparr>total_cpu_cores := Some 0, total_ram_gb := Some 0,
                           total_storage_gb := Some 0, p_updated_at := db_now env_up\<rparr>
                    else p) (pools stale_store)" by simp
  show ?thesis
    unfolding b using down up a by (simp add: stale_store_def asym_store_def)
qed


section \<open>Queries on a well-formed store\<close>

lemma single_simps:
  "single [] = None" "single [r] = Some r" "single (a # b # rows) = None"
  by (simp_all add: single_def)


lemma filter_key_distinct:
  assumes "distinct (map k rows)" and "r \<in> set rows"
  shows "filter (\<lambda>c. k c = k r) rows = [r]"
  using assms
proof (induction rows)
  case Nil
  then show ?case by simp
next
  case (Cons x rows)
  show ?case
  proof (cases "x = r")
    case True
    from Cons.prems have "k x \<notin> k ` set rows" by simp
    with True have "\<forall>c \<in> set rows. k c \<noteq> k r" by (metis imageI)
    then have "filter (\<lambda>c. k c = k r) rows = []" by (simp add: filter_empty_conv)
    with True show ?thesis by simp
  next
    case False
    with Cons.prems have "r \<in> set rows" and "k x \<noteq> k r" and "distinct (map k rows)" by auto
    with Cons.IH show ?thesis by simp
  qed
qed


lemma filter_map_preserving:
  assumes "\<And>c. c \<in> set rows \<Longrightarrow> P (g c) = P c"
  shows "filter P (map g rows) = map g (filter P rows)"
  using assms by (induction rows) auto

lemma set_columns_fields:
  "c_id (set_columns ch c) = c_id c"
  "c_pool_id (set_columns ch c) = c_pool_id c"
  "c_user_id (set_columns ch c) = c_user_id c"
  "cpu_cores (set_columns ch c) = (case ch_cpu_cores ch of None \<Rightarrow> cpu_cores c | Some v \<Rightarrow> integer_column v)"
  "ram_gb (set_columns ch c) = (case ch_ram_gb ch of None \<Rightarrow> ram_gb c | Some v \<Rightarrow> Some v)"
  "storage_gb (set_columns ch c) = (case ch_storage_gb ch of None \<Rightarrow> storage_gb c | Some v \<Rightarrow> Some v)"
  "c_status (set_columns ch c) = (case ch_status ch of None \<Rightarrow> c_status c | Some v \<Rightarrow> v)"
  "last_seen (set_columns ch c) = (case ch_last_seen ch of None \<Rightarrow> last_seen c | Some t \<Rightarrow> Some t)"
  by (simp_all add: set_columns_def Let_def split: option.splits)

lemma update_single_Some_iff:
  "update_single P ch st = Some (r', st1) \<longleftrightarrow>
     accepted ch \<and>
     (\<exists>r. filter P (pool_contributors st) = [r] \<and> r' = set_columns ch r \<and>
          st1 = st\<lparr>pool_contributors :=
                    map (\<lambda>c. if P c then set_columns ch c else c) (pool_contributors st)\<rparr>)"
  by (auto simp: update_single_def single_def split: list.splits)


lemma owned_row_filter:
  assumes "wf_store st" and "c \<in> set (pool_contributors st)"
    and "c_id c = cid" and "c_user_id c = user"
  shows "filter (\<lambda>x. c_id x = cid \<and> c_user_id x = user) (pool_contributors st) = [c]"
proof -
  from assms have one: "filter (\<lambda>x. c_id x = cid) (pool_contributors st) = [c]"
    using filter_key_distinct [of c_id "pool_contributors st" c] by (auto simp: wf_store_def)
  have "filter (\<lambda>x. c_id x = cid \<and> c_user_id x = user) (pool_contributors st) =
          filter (\<lambda>x. c_user_id x = user) (filter (\<lambda>x. c_id x = cid) (pool_contributors st))"
    by (simp add: conj_commute)
  with one assms(4) show ?thesis by simp
qed


section \<open>Heartbeat and disconnect\<close>

lemma falsy_Some: "falsy (Some s) \<longleftrightarrow> s = []"
  by (simp add: falsy_def)

lemma updateData_fields:
  "ch_cpu_cores (updateData e b) = b_cpu_cores b"
  "ch_ram_gb (updateData e b) = b_ram_gb b"
  "ch_storage_gb (updateData e b) = b_storage_gb b"
  "ch_status (updateData e b) = Some (case b_status b of None \<Rightarrow> Online | Some s \<Rightarrow> s)"
  "ch_last_seen (updateData e b) = Some (now e)"
  by (simp_all add: updateData_def)

lemma heartbeat_owned:
  assumes "b_contributor_id b = Some cid" and "cid \<noteq> []"
    and "filter (\<lambda>x. c_id x = cid \<and> c_user_id x = user) (pool_contributors st) = [c]"
    and "accepted (updateData e b)"
  shows "heartbeat e user b st =
     (respond 200 (MessageBody ''Heartbeat received''),
      if has_resource_field b then updatePoolTotals e (c_pool_id c) (heartbeat_rows e user b st)
      else heartbeat_rows e user b st)"
  using assms
  by (simp add: heartbeat_def falsy_Some update_single_def single_simps has_resource_field_def
      set_columns_fields heartbeat_rows_def owned_row_def)

lemma heartbeat_success:
  assumes "heartbeat e user b st = (r, st')" and "r_status r = 200"
  obtains c cid where "b_contributor_id b = Some cid" and "cid \<noteq> []"
    and "filter (\<lambda>x. c_id x = cid \<and> c_user_id x = user) (pool_contributors st) = [c]"
    and "accepted (updateData e b)"
proof (cases "b_contributor_id b")
  case None
  with assms show ?thesis by (auto simp: heartbeat_def falsy_def respond_def)
next
  case (Some cid)
  with assms have ne: "cid \<noteq> []"
    by (auto simp: heartbeat_def falsy_Some respond_def)
  from assms Some ne obtain c where
    "filter (\<lambda>x. c_id x = cid \<and> c_user_id x = user) (pool_contributors st) = [c]"
    "accepted (updateData e b)"
    by (cases "update_single (\<lambda>c. c_id c = cid \<and> c_user_id c = user) (updateData e b) st")
       (auto simp: heartbeat_def falsy_Some respond_def update_single_Some_iff)
  with Some ne that show ?thesis by blast
qed

lemma updated_row_unique:
  assumes one: "filter (\<lambda>x. c_id x = cid) rows = [c]" and own: "c_user_id c = user"
    and keep: "\<And>x. c_id (f x) = c_id x"
  shows "filter (\<lambda>x. c_id x = cid)
           (map (\<lambda>x. if c_id x = cid \<and> c_user_id x = user then f x else x) rows) = [f c]"
proof -
  let ?g = "\<lambda>x. if c_id x = cid \<and> c_user_id x = user then f x else x"
  have "filter (\<lambda>x. c_id x = cid) (map ?g rows) = map ?g (filter (\<lambda>x. c_id x = cid) rows)"
    by (rule filter_map_preserving) (simp add: keep)
  also have "\<dots> = [?g c]" by (simp add: one)
  finally have step: "filter (\<lambda>x. c_id x = cid) (map ?g rows) = [?g c]" .
  from one have "c \<in> set (filter (\<lambda>x. c_id x = cid) rows)" by simp
  then have "c_id c = cid" by simp
  with own step show ?thesis by simp
qed

text \<open>
  C3, as the code has it. For a contributor row owned by the caller, a heartbeat whose
  values the store accepts (\<open>cpu_cores\<close> absent, or an integer of 32 bits) succeeds,
  refreshes \<open>last_seen\<close> to now and sets \<open>status\<close> to the value given, \<open>online\<close> when
  none is given; a heartbeat with none of \<open>cpu_cores\<close>, \<open>ram_gb\<close>, \<open>storage_gb\<close> is
  always accepted and leaves the three stored values of the row as they were.
\<close>

theorem heartbeat_partial_update:
  assumes "wf_store st" and "c \<in> set (pool_contributors st)"
    and "c_id c = cid" and "c_user_id c = user" and "cid \<noteq> []"
    and "b_contributor_id b = Some cid"
    and "heartbeat e user b st = (r, st')"
  shows "(b_cpu_cores b = None \<longrightarrow> accepted (updateData e b)) \<and>
     (accepted (updateData e b) \<longrightarrow>
        r_status r = 200 \<and>
        (\<exists>c'. filter (\<lambda>x. c_id x = cid) (pool_contributors st') = [c'] \<and>
           c_pool_id c' = c_pool_id c \<and> c_user_id c' = user \<and>
           last_seen c' = Some (now e) \<and>
           c_status c' = (case b_status b of None \<Rightarrow> Online | Some s \<Rightarrow> s) \<and>
           (b_cpu_cores b = None \<and> b_ram_gb b = None \<and> b_storage_gb b = None \<longrightarrow>
              cpu_cores c' = cpu_cores c \<and> ram_gb c' = ram_gb c \<and> storage_gb c' = storage_gb c)))"
proof (intro conjI impI)
  assume "b_cpu_cores b = None"
  then show "accepted (updateData e b)" by (simp add: accepted_def updateData_fields)
next
  assume acc: "accepted (updateData e b)"
  from assms(1-4) have owned:
    "filter (\<lambda>x. c_id x = cid \<and> c_user_id x = user) (pool_contributors st) = [c]"
    by (rule owned_row_filter)
  from assms(1-3) have one: "filter (\<lambda>x. c_id x = cid) (pool_contributors st) = [c]"
    using filter_key_distinct [of c_id "pool_contributors st" c] by (auto simp: wf_store_def)
  from heartbeat_owned [OF assms(6) assms(5) owned acc] assms(7)
  have r: "r = respond 200 (MessageBody ''Heartbeat received'')"
    and rows: "pool_contributors st' =
       map (\<lambda>x. if c_id x = cid \<and> c_user_id x = user then set_columns (updateData e b) x else x)
           (pool_contributors st)"
    by (auto simp: heartbeat_rows_def owned_row_def assms(6) updatePoolTotals_frame split: if_splits)
  have row: "filter (\<lambda>x. c_id x = cid) (pool_contributors st') = [set_columns (updateData e b) c]"
    unfolding rows using one assms(4) by (rule updated_row_unique) (simp add: set_columns_fields)
  from r show "r_status r = 200" by (simp add: respond_def)
  from row show "\<exists>c'. filter (\<lambda>x. c_id x = cid) (pool_contributors st') = [c'] \<and>
           c_pool_id c' = c_pool_id c \<and> c_user_id c' = user \<and>
           last_seen c' = Some (now e) \<and>
           c_status c' = (case b_status b of None \<Rightarrow> Online | Some s \<Rightarrow> s) \<and>
           (b_cpu_cores b = None \<and> b_ram_gb b = None \<and> b_storage_gb b = None \<longrightarrow>
              cpu_cores c' = cpu_cores c \<and> ram_gb c' = ram_gb c \<and> storage_gb c' = storage_gb c)"
    by (simp add: set_columns_fields updateData_fields assms(4))
qed

theorem heartbeat_partial_update_witness:
  "accepted (updateData env_up (heartbeat_body ''C'' None None None None))
   \<and> r_status (fst (heartbeat env_up ''c'' (heartbeat_body ''C'' None None None None) asym_store)) = 200
   \<and> (\<exists>c'. filter (\<lambda>x. c_id x = ''C'')
              (pool_contributors (snd (heartbeat env_up ''c''
                 (heartbeat_body ''C'' None None None None) asym_store))) = [c']
        \<and> last_seen c' = Some 100 \<and> c_status c' = Online
        \<and> cpu_cores c' = Some 4 \<and> ram_gb c' = Some 8 \<and> storage_gb c' = Some 50)"
proof -
  have wf: "wf_store asym_store" by (simp add: wf_store_def asym_store_def)
  have row: "asym_row \<in> set (pool_contributors asym_store)"
    by (simp add: asym_store_def asym_row_def)
  have b: "b_contributor_id (heartbeat_body ''C'' None None None None) = Some ''C''"
    "b_cpu_cores (heartbeat_body ''C'' None None None None) = None"
    by (simp_all add: heartbeat_body_def)
  from heartbeat_partial_update [OF wf row, of "''C''" "''c''"
      "heartbeat_body ''C'' None None None None" env_up
      "fst (heartbeat env_up ''c'' (heartbeat_body ''C'' None None None None) asym_store)"
      "snd (heartbeat env_up ''c'' (heartbeat_body ''C'' None None None None) asym_store)"] b
  show ?thesis
    by (auto simp: asym_row_def heartbeat_body_def env_up_def)
qed

text \<open>
  The claim C3 itself says every heartbeat refreshes \<open>last_seen\<close>: user \<open>c\<close> sends a
  heartbeat for their own row \<open>C\<close> with \<open>cpu_cores\<close> 2147483648, one more than the
  INTEGER column holds. The answer is 500 and the row keeps its \<open>last_seen\<close>, here NULL.
\<close>

theorem heartbeat_out_of_range_counterexample:
  "list_ex (\<lambda>c. c_id c = ''C'' \<and> c_user_id c = ''c'') (pool_contributors asym_store) \<and>
   map last_seen (pool_contributors asym_store) = [None] \<and>
   serve env_up (post ''/heartbeat'' (Some ''Bearer tok-c'')
       (heartbeat_body ''C'' (Some Online) (Some 2147483648) None None)) asym_store
     = (\<lparr>r_status = 500, r_payload = ErrorBody ''Failed to update heartbeat''\<rparr>, asym_store)"
  by (simp add: serve_def dispatch_def with_json_def heartbeat_def falsy_def
      update_single_def accepted_def updateData_def integer_column_def respond_def post_def
      heartbeat_body_def env_up_def verifier_def asym_store_def)

text \<open>
  C4. A successful heartbeat updates the caller's row and then, exactly when the request
  has one of \<open>cpu_cores\<close>, \<open>ram_gb\<close>, \<open>storage_gb\<close>, runs the aggregator once for the
  pool of that row: the store returned is the aggregator's result on the updated rows. A
  heartbeat without them returns the updated rows as they are: no aggregator call, and
  the \<open>pools\<close> table as it was, whatever it does to the status.
\<close>

theorem heartbeat_aggregates_iff_resource_field:
  "heartbeat e user b st = (r, st') \<and> r_status r = 200 \<longrightarrow>
     (\<exists>c \<in> set (pool_contributors st). owned_row (the (b_contributor_id b)) user c \<and>
        (has_resource_field b \<longrightarrow>
           st' = updatePoolTotals e (c_pool_id c) (heartbeat_rows e user b st) \<and>
           aggregator_calls st' = aggregator_calls st @ [c_pool_id c]) \<and>
        (\<not> has_resource_field b \<longrightarrow>
           st' = heartbeat_rows e user b st \<and>
           aggregator_calls st' = aggregator_calls st \<and> pools st' = pools st))"
proof
  assume h: "heartbeat e user b st = (r, st') \<and> r_status r = 200"
  then obtain c cid where cid: "b_contributor_id b = Some cid" "cid \<noteq> []"
    and owned: "filter (\<lambda>x. c_id x = cid \<and> c_user_id x = user) (pool_contributors st) = [c]"
    and acc: "accepted (updateData e b)"
    by (blast elim: heartbeat_success)
  from owned have "c \<in> set (filter (\<lambda>x. c_id x = cid \<and> c_user_id x = user) (pool_contributors st))"
    by simp
  then have c: "c \<in> set (pool_contributors st)" "owned_row (the (b_contributor_id b)) user c"
    by (simp_all add: owned_row_def cid(1))
  from heartbeat_owned [OF cid owned acc] h
  have st': "st' = (if has_resource_field b
      then updatePoolTotals e (c_pool_id c) (heartbeat_rows e user b st)
      else heartbeat_rows e user b st)"
    by simp
  have frame: "aggregator_calls (heartbeat_rows e user b st) = aggregator_calls st"
    "pools (heartbeat_rows e user b st) = pools st"
    by (simp_all add: heartbeat_rows_def)
  from c st' frame
  show "\<exists>c \<in> set (pool_contributors st). owned_row (the (b_contributor_id b)) user c \<and>
        (has_resource_field b \<longrightarrow>
           st' = updatePoolTotals e (c_pool_id c) (heartbeat_rows e user b st) \<and>
           aggregator_calls st' = aggregator_calls st @ [c_pool_id c]) \<and>
        (\<not> has_resource_field b \<longrightarrow>
           st' = heartbeat_rows e user b st \<and>
           aggregator_calls st' = aggregator_calls st \<and> pools st' = pools st)"
    by (auto simp: updatePoolTotals_frame)
qed

theorem heartbeat_aggregates_iff_resource_field_witness:
  "r_status (fst (heartbeat env_up ''c'' (heartbeat_body ''C'' (Some Offline) None None None) asym_store)) = 200
   \<and> snd (heartbeat env_up ''c'' (heartbeat_body ''C'' (Some Offline) None None None) asym_store)
       = heartbeat_rows env_up ''c'' (heartbeat_body ''C'' (Some Offline) None None None) asym_store
   \<and> aggregator_calls (snd (heartbeat env_up ''c''
        (heartbeat_body ''C'' (Some Offline) None None None) asym_store)) = []
   \<and> pools (snd (heartbeat env_up ''c''
        (heartbeat_body ''C'' (Some Offline) None None None) asym_store)) = pools asym_store
   \<and> r_status (fst (heartbeat env_up ''c'' (heartbeat_body ''C'' None (Some 2) None None) asym_store)) = 200
   \<and> snd (heartbeat env_up ''c'' (heartbeat_body ''C'' None (Some 2) None None) asym_store)
       = updatePoolTotals env_up ''P''
           (heartbeat_rows env_up ''c'' (heartbeat_body ''C'' None (Some 2) None None) asym_store)
   \<and> aggregator_calls (snd (heartbeat env_up ''c''
        (heartbeat_body ''C'' None (Some 2) None None) asym_store)) = [''P'']"
proof -
  have ok1: "r_status (fst (heartbeat env_up ''c'' (heartbeat_body ''C'' (Some Offline) None None None) asym_store)) = 200"
    and ok2: "r_status (fst (heartbeat env_up ''c'' (heartbeat_body ''C'' None (Some 2) None None) asym_store)) = 200"
    by (simp_all add: heartbeat_def falsy_def heartbeat_body_def update_single_def single_def
        accepted_def updateData_def integer_column_def asym_store_def respond_def)
  have calls0: "aggregator_calls asym_store = []" by (simp add: asym_store_def)
  have no: "\<not> has_resource_field (heartbeat_body ''C'' (Some Offline) None None None)"
    and yes: "has_resource_field (heartbeat_body ''C'' None (Some 2) None None)"
    by (simp_all add: has_resource_field_def heartbeat_body_def)
  from heartbeat_aggregates_iff_resource_field [of env_up "''c''"
      "heartbeat_body ''C'' (Some Offline) None None None" asym_store
      "fst (heartbeat env_up ''c'' (heartbeat_body ''C'' (Some Offline) None None None) asym_store)"
      "snd (heartbeat env_up ''c'' (heartbeat_body ''C'' (Some Offline) None None None) asym_store)"]
    ok1 no
  have a: "snd (heartbeat env_up ''c'' (heartbeat_body ''C'' (Some Offline) None None None) asym_store)
       = heartbeat_rows env_up ''c'' (heartbeat_body ''C'' (Some Offline) None None None) asym_store
      \<and> aggregator_calls (snd (heartbeat env_up ''c''
        (heartbeat_body ''C'' (Some Offline) None None None) asym_store)) = []
      \<and> pools (snd (heartbeat env_up ''c''
        (heartbeat_body ''C'' (Some Offline) None None None) asym_store)) = pools asym_store"
    by (auto simp: calls0)
  from heartbeat_aggregates_iff_resource_field [of env_up "''c''"
      "heartbeat_body ''C'' None (Some 2) None None" asym_store
      "fst (heartbeat env_up ''c'' (heartbeat_body ''C'' None (Some 2) None None) asym_store)"
      "snd (heartbeat env_up ''c'' (heartbeat_body ''C'' None (Some 2) None None) asym_store)"]
    ok2 yes
  have b: "snd (heartbeat env_up ''c'' (heartbeat_body ''C'' None (Some 2) None None) asym_store)
       = updatePoolTotals env_up ''P''
           (heartbeat_rows env_up ''c'' (heartbeat_body ''C'' None (Some 2) None None) asym_store)
      \<and> aggregator_calls (snd (heartbeat env_up ''c''
        (heartbeat_body ''C'' None (Some 2) None None) asym_store)) = [''P'']"
    by (auto simp: asym_store_def owned_row_def heartbeat_body_def)
  from ok1 ok2 a b show ?thesis by blast
qed

text \<open>
  C5, as the code has it. A heartbeat or disconnect whose \<open>contributor_id\<close> names no row
  owned by the caller, be it an id no row has or the id of another user's row, is
  answered with status 500 and the generic message of the operation, and the store is
  returned as it was.
\<close>

theorem unowned_contributor_rejected:
  "b_contributor_id b = Some cid \<and> cid \<noteq> [] \<and>
   \<not> list_ex (owned_row cid user) (pool_contributors st) \<longrightarrow>
     heartbeat e user b st = (respond 500 (ErrorBody ''Failed to update heartbeat''), st) \<and>
     disconnect e user b st = (respond 500 (ErrorBody ''Failed to disconnect''), st)"
proof
  assume h: "b_contributor_id b = Some cid \<and> cid \<noteq> [] \<and>
    \<not> list_ex (owned_row cid user) (pool_contributors st)"
  then have "filter (\<lambda>c. c_id c = cid \<and> c_user_id c = user) (pool_contributors st) = []"
    by (simp add: list_ex_iff owned_row_def filter_empty_conv)
  then have "update_single (\<lambda>c. c_id c = cid \<and> c_user_id c = user) ch st = None" for ch
    by (simp add: update_single_def single_simps)
  with h show "heartbeat e user b st = (respond 500 (ErrorBody ''Failed to update heartbeat''), st) \<and>
     disconnect e user b st = (respond 500 (ErrorBody ''Failed to disconnect''), st)"
    by (simp add: heartbeat_def disconnect_def falsy_Some)
qed

theorem unowned_contributor_rejected_witness:
  "\<not> list_ex (owned_row ''C'' ''b'') (pool_contributors asym_store) \<and>
   heartbeat env_up ''b'' (heartbeat_body ''C'' (Some Offline) (Some 0) None None) asym_store
     = (respond 500 (ErrorBody ''Failed to update heartbeat''), asym_store) \<and>
   disconnect env_up ''b'' (heartbeat_body ''C'' (Some Offline) (Some 0) None None) asym_store
     = (respond 500 (ErrorBody ''Failed to disconnect''), asym_store)"
proof -
  have h: "b_contributor_id (heartbeat_body ''C'' (Some Offline) (Some 0) None None) = Some ''C''
      \<and> ''C'' \<noteq> [] \<and> \<not> list_ex (owned_row ''C'' ''b'') (pool_contributors asym_store)"
    by (simp add: heartbeat_body_def owned_row_def asym_store_def)
  with unowned_contributor_rejected [of "heartbeat_body ''C'' (Some Offline) (Some 0) None None"
      "''C''" "''b''" asym_store env_up]
  show ?thesis by simp
qed

text \<open>
  The claim C5 itself asks for a 404: user \<open>b\<close> sends a heartbeat and a disconnect for
  row \<open>C\<close>, which exists and belongs to user \<open>c\<close>; both are answered 500.
\<close>

theorem foreign_contributor_status_counterexample:
  "list_ex (\<lambda>c. c_id c = ''C'' \<and> c_user_id c = ''c'') (pool_contributors asym_store) \<and>
   serve env_up (post ''/heartbeat'' (Some ''Bearer tok-b'')
       (heartbeat_body ''C'' None None None None)) asym_store
     = (\<lparr>r_status = 500, r_payload = ErrorBody ''Failed to update heartbeat''\<rparr>, asym_store) \<and>
   serve env_up (post ''/disconnect'' (Some ''Bearer tok-b'')
       (heartbeat_body ''C'' None None None None)) asym_store
     = (\<lparr>r_status = 500, r_payload = ErrorBody ''Failed to disconnect''\<rparr>, asym_store)"
  by (simp add: serve_def dispatch_def with_json_def heartbeat_def disconnect_def falsy_def
      update_single_def single_def accepted_def updateData_def disconnectData_def respond_def
      post_def heartbeat_body_def env_up_def verifier_def asym_store_def)


section \<open>Authentication\<close>

lemma occurs_at_0: "occurs_at pat s 0 \<longleftrightarrow> prefix pat s"
  by (auto simp: occurs_at_def prefix_def) (metis append_take_drop_id)

lemma occurs_at_Suc: "occurs_at pat (c # cs) (Suc i) \<longleftrightarrow> occurs_at pat cs i"
  by (simp add: occurs_at_def)

lemma replace_first_no_occurrence:
  "no_occurrence pat s \<Longrightarrow> replace_first pat rep s = s"
proof (induction s)
  case Nil
  then have "\<not> occurs_at pat [] 0" by (simp add: no_occurrence_def)
  then show ?case by (simp add: occurs_at_def)
next
  case (Cons c cs)
  from Cons.prems have "\<not> occurs_at pat (c # cs) 0" by (simp add: no_occurrence_def)
  then have no_prefix: "\<not> prefix pat (c # cs)" by (simp add: occurs_at_0)
  have "no_occurrence pat cs"
    unfolding no_occurrence_def
  proof (intro allI impI)
    fix i assume "i \<le> length cs"
    with Cons.prems have "\<not> occurs_at pat (c # cs) (Suc i)" by (simp add: no_occurrence_def)
    then show "\<not> occurs_at pat cs i" by (simp add: occurs_at_Suc)
  qed
  with Cons.IH no_prefix show ?case by simp
qed

lemma replace_first_at_first_occurrence:
  "first_occurrence pat s i \<Longrightarrow>
     replace_first pat rep s = take i s @ rep @ drop (i + length pat) s"
proof (induction s arbitrary: i)
  case Nil
  then show ?case by (simp add: first_occurrence_def occurs_at_def)
next
  case (Cons c cs)
  show ?case
  proof (cases i)
    case 0
    with Cons.prems have "prefix pat (c # cs)"
      by (simp add: first_occurrence_def occurs_at_0)
    with 0 show ?thesis by simp
  next
    case (Suc k)
    with Cons.prems have "\<not> occurs_at pat (c # cs) 0"
      by (simp add: first_occurrence_def)
    then have no_prefix: "\<not> prefix pat (c # cs)" by (simp add: occurs_at_0)
    have "first_occurrence pat cs k"
      unfolding first_occurrence_def
    proof (intro conjI allI impI)
      from Cons.prems Suc show "occurs_at pat cs k"
        by (simp add: first_occurrence_def occurs_at_Suc)
    next
      fix j assume "j < k"
      with Cons.prems Suc have "\<not> occurs_at pat (c # cs) (Suc j)"
        by (simp add: first_occurrence_def)
      then show "\<not> occurs_at pat cs j" by (simp add: occurs_at_Suc)
    qed
    from Cons.IH [OF this] no_prefix Suc show ?thesis by simp
  qed
qed

text \<open>
  C8. A request other than a CORS preflight whose Authorization header is missing or
  empty, or whose token the verifier does not resolve to a user, is answered 401 on
  every route; the store is returned as it was and the answer is the same for every
  store, so no relation was read or written and no operation was dispatched.
\<close>

theorem unauthenticated_rejected:
  "r_method req \<noteq> ''OPTIONS'' \<and> unauthenticated e req \<longrightarrow>
     r_status (fst (serve e req st)) = 401
     \<and> snd (serve e req st) = st
     \<and> fst (serve e req st) = fst (serve e req st2)
     \<and> aggregator_calls (snd (serve e req st)) = aggregator_calls st"
  by (auto simp: serve_def unauthenticated_def respond_def Let_def split: option.splits)

theorem unauthenticated_rejected_witness:
  "r_status (fst (serve env_up
      (post ''/register'' (Some ''Bearer forged'') (register_body ''P'' (Some 4) None None))
      fresh_store)) = 401
   \<and> snd (serve env_up
      (post ''/register'' (Some ''Bearer forged'') (register_body ''P'' (Some 4) None None))
      fresh_store) = fresh_store
   \<and> r_status (fst (serve env_up
      (post ''/nowhere'' None (register_body ''P'' (Some 4) None None)) fresh_store)) = 401"
proof -
  have m: "r_method (post ''/register'' (Some ''Bearer forged'') (register_body ''P'' (Some 4) None None))
      \<noteq> ''OPTIONS''"
    "r_method (post ''/nowhere'' None (register_body ''P'' (Some 4) None None)) \<noteq> ''OPTIONS''"
    by (simp_all add: post_def)
  have u: "unauthenticated env_up
      (post ''/register'' (Some ''Bearer forged'') (register_body ''P'' (Some 4) None None))"
    "unauthenticated env_up (post ''/nowhere'' None (register_body ''P'' (Some 4) None None))"
    by (simp_all add: unauthenticated_def post_def env_up_def verifier_def)
  from unauthenticated_rejected [of
      "post ''/register'' (Some ''Bearer forged'') (register_body ''P'' (Some 4) None None)"
      env_up fresh_store fresh_store]
    unauthenticated_rejected [of
      "post ''/nowhere'' None (register_body ''P'' (Some 4) None None)"
      env_up fresh_store fresh_store]
    m u
  show ?thesis by simp
qed

text \<open>
  C9. A non-empty Authorization header that does not start with \<open>Bearer \<close> does not
  take the missing-header branch: the request is decided by the verifier, applied to the
  header with its first occurrence of \<open>Bearer \<close> cut out, which is the header itself
  when \<open>Bearer \<close> occurs nowhere in it.
\<close>

theorem bearer_scheme_not_checked:
  "r_method req \<noteq> ''OPTIONS'' \<and> r_authorization req = Some h \<and> h \<noteq> [] \<and> \<not> prefix ''Bearer '' h \<longrightarrow>
     serve e req st =
       (case getUser e (replace_first ''Bearer '' [] h) of
          None \<Rightarrow> (respond 401 (ErrorBody ''Invalid or expired token''), st)
        | Some user \<Rightarrow> dispatch e user req (replace_first ''/agent-api'' [] (r_pathname req)) st)
     \<and> (no_occurrence ''Bearer '' h \<longrightarrow> replace_first ''Bearer '' [] h = h)
     \<and> (first_occurrence ''Bearer '' h i \<longrightarrow>
          replace_first ''Bearer '' [] h = take i h @ drop (i + length ''Bearer '') h)"
  using replace_first_no_occurrence [of "''Bearer ''" h "[]"]
    replace_first_at_first_occurrence [of "''Bearer ''" h i "[]"]
  by (simp add: serve_def Let_def)

theorem bearer_scheme_not_checked_witness:
  "fst (serve env_up (post ''/heartbeat'' (Some ''tok-c'') (heartbeat_body ''C'' None None None None))
         asym_store) = respond 200 (MessageBody ''Heartbeat received'')
   \<and> replace_first ''Bearer '' [] ''tok-c'' = ''tok-c''
   \<and> replace_first ''Bearer '' [] ''Token Bearer tok-c'' = ''Token tok-c''"
proof -
  have no: "no_occurrence ''Bearer '' ''tok-c''"
    by (simp add: no_occurrence_def occurs_at_def le_Suc_eq)
  have first: "first_occurrence ''Bearer '' ''Token Bearer tok-c'' 6"
    by (simp add: first_occurrence_def occurs_at_def less_Suc_eq eval_nat_numeral)
  have hyp: "r_method (post ''/heartbeat'' (Some ''tok-c'') (heartbeat_body ''C'' None None None None)) \<noteq> ''OPTIONS''
      \<and> r_authorization (post ''/heartbeat'' (Some ''tok-c'') (heartbeat_body ''C'' None None None None)) = Some ''tok-c''
      \<and> ''tok-c'' \<noteq> [] \<and> \<not> prefix ''Bearer '' ''tok-c''"
    by (simp add: post_def)
  have user: "getUser env_up ''tok-c'' = Some ''c''"
    by (simp add: env_up_def verifier_def)
  have run: "dispatch env_up ''c'' (post ''/heartbeat'' (Some ''tok-c'') (heartbeat_body ''C'' None None None None))
      ''/heartbeat'' asym_store
      = (respond 200 (MessageBody ''Heartbeat received''),
         snd (heartbeat env_up ''c'' (heartbeat_body ''C'' None None None None) asym_store))"
    by (simp add: dispatch_def post_def with_json_def heartbeat_def falsy_def heartbeat_body_def
        update_single_def single_def accepted_def updateData_def asym_store_def)
  have path: "r_pathname (post ''/heartbeat'' (Some ''tok-c'') (heartbeat_body ''C'' None None None None))
      = ''/agent-api/heartbeat''"
    by (simp add: post_def)
  from bearer_scheme_not_checked [of
      "post ''/heartbeat'' (Some ''tok-c'') (heartbeat_body ''C'' None None None None)"
      "''tok-c''" env_up asym_store 0] hyp no
  have a: "serve env_up (post ''/heartbeat'' (Some ''tok-c'') (heartbeat_body ''C'' None None None None)) asym_store
      = (respond 200 (MessageBody ''Heartbeat received''),
         snd (heartbeat env_up ''c'' (heartbeat_body ''C'' None None None None) asym_store))"
    and b: "replace_first ''Bearer '' [] ''tok-c'' = ''tok-c''"
    by (simp_all add: user run path)
  have hyp2: "r_method (post ''/heartbeat'' (Some ''Token Bearer tok-c'') (heartbeat_body ''C'' None None None None)) \<noteq> ''OPTIONS''
      \<and> r_authorization (post ''/heartbeat'' (Some ''Token Bearer tok-c'') (heartbeat_body ''C'' None None None None))
          = Some ''Token Bearer tok-c''
      \<and> ''Token Bearer tok-c'' \<noteq> [] \<and> \<not> prefix ''Bearer '' ''Token Bearer tok-c''"
    by (simp add: post_def)
  from bearer_scheme_not_checked [of
      "post ''/heartbeat'' (Some ''Token Bearer tok-c'') (heartbeat_body ''C'' None None None None)"
      "''Token Bearer tok-c''" env_up asym_store 6] hyp2 first
  have c: "replace_first ''Bearer '' [] ''Token Bearer tok-c'' = ''Token tok-c''"
    by simp
  from a b c show ?thesis by simp
qed


section \<open>Register\<close>
















section \<open>Runs of the API on the example stores\<close>

lemmas run_simps =
  serve_def dispatch_def with_json_def register_def heartbeat_def disconnect_def falsy_def
  single_def update_single_def insert_contributor_def accepted_def set_columns_def
  default_row_def integer_column_def updatePoolTotals_def update_pool_totals_def
  select_online_def reduce_totals_def add_totals_def column_or_zero_def write_totals_def
  or_zero_def register_values_def updateData_def disconnectData_def respond_def post_def
  register_body_def heartbeat_body_def first_register_def second_register_def
  oversized_register_def offline_heartbeat_def rounding_add_def
  env_up_def env_down_def env_later_def env_later_down_def verifier_def Let_def

lemmas sum_simps =
  all_totals_consistent_def pool_totals_consistent_def totals_consistent_def sums_exact_def
  online_cpu_def online_ram_def online_storage_def online_rows_def






text \<open>
  The two ways a recomputation misses the exact sums: with rows of 0.1 and 0.2 GB the
  total written is 0.30000000000000004; with two rows of 2147483647 cores the sum does
  not fit the column, the statement fails and the totals stay as they were.
\<close>

lemma rounded_total_example:
  "map total_ram_gb (pools (updatePoolTotals env_up ''P'' fraction_store))
     = [Some (30000000000000004 / 100000000000000000)]
   \<and> online_ram fraction_store ''P'' = 3 / 10
   \<and> \<not> sums_exact env_up fraction_store ''P''"
  by (simp add: run_simps sum_simps fraction_store_def)

lemma rejected_total_example:
  "pools (updatePoolTotals env_up ''P'' crowded_store) = pools crowded_store
   \<and> online_cpu crowded_store ''P'' = 4294967294
   \<and> \<not> sums_exact env_up crowded_store ''P''"
  by (simp add: run_simps sum_simps crowded_store_def)






end
